theory Spec2Isabelle
  imports Complex_Main
begin

section \<open>Python values shared by the three modules\<close>

text \<open>
  Python's \<open>float\<close> is idealised as \<open>real\<close>: a decimal literal denotes the same number
  in the program and in a statement about it, the comparisons of the labeler are exact,
  and the sum and the quotient of the aggregator are taken without rounding (no NaN, no
  infinity).
  A \<open>str\<close> is a \<open>string\<close>, one \<open>char\<close> per code point; the accented letters of the
  program's literals are all below 256 and are written \<open>CHR 0x..\<close>.

  An exception is a value. Every exception below is a subclass of Python's \<open>Exception\<close>;
  \<open>KeyboardInterrupt\<close> and \<open>SystemExit\<close>, which no \<open>except Exception\<close> catches, are
  outside the model. \<open>Exception cls msg\<close> stands for any other class, with its class
  name and its message.
\<close>

datatype exn =
    FileNotFoundError string
  | NoSectionError string
  | NoOptionError string string
  | ConnectionRefusedError string
  | RequestException string
  | KeyError string
  | Exception string string

type_synonym 'a result = "exn + 'a"

definition and_then :: "'a result \<Rightarrow> ('a \<Rightarrow> 'b result) \<Rightarrow> 'b result" where
  "and_then r f = (case r of Inl e \<Rightarrow> Inl e | Inr v \<Rightarrow> f v)"

text \<open>\<open>d[k]\<close> on a dict, \<open>xs[0]\<close> on a list, \<open>x / n\<close> on a float and a length.\<close>

definition getitem :: "(string \<times> 'a) list \<Rightarrow> string \<Rightarrow> 'a result" where
  "getitem d k = (case map_of d k of None \<Rightarrow> Inl (KeyError k) | Some v \<Rightarrow> Inr v)"

definition first_item :: "'a list \<Rightarrow> 'a result" where
  "first_item xs =
     (case xs of [] \<Rightarrow> Inl (Exception ''IndexError'' ''list index out of range'')
      | x # _ \<Rightarrow> Inr x)"

text \<open>\<open>repr\<close> of a text that has no quote or escape in it.\<close>

definition py_repr :: "string \<Rightarrow> string" where
  "py_repr s = [CHR 0x27] @ s @ [CHR 0x27]"

definition truediv :: "real \<Rightarrow> nat \<Rightarrow> real result" where
  "truediv x n =
     (if n = 0 then Inl (Exception ''ZeroDivisionError'' ''float division by zero'')
      else Inr (x / real n))"

section \<open>analysis.py\<close>

text \<open>
  What \<open>SentimentIntensityAnalyzer.polarity_scores\<close> returns. The analyzer itself
  belongs to the vaderSentiment library and is a parameter of the aggregator.
\<close>

record sentiment_scores =
  neg :: real
  neu :: real
  pos :: real
  compound :: real

record detail =
  headline :: string
  scores :: sentiment_scores

record summary =
  average_sentiment_compound :: real
  details :: "detail list"

text \<open>
  The \<open>for\<close> loop of \<open>analyze_headlines_sentiment\<close>, on the pair
  \<open>(detailed_results, total_compound_score)\<close>.
\<close>

fun analyze_loop ::
  "(string \<Rightarrow> sentiment_scores) \<Rightarrow> string list \<Rightarrow> detail list \<times> real \<Rightarrow> detail list \<times> real"
where
  "analyze_loop polarity_scores [] acc = acc"
| "analyze_loop polarity_scores (h # hs) (detailed_results, total_compound_score) =
     (let sentiment_scores = polarity_scores h
      in analyze_loop polarity_scores hs
           (detailed_results @ [\<lparr>headline = h, scores = sentiment_scores\<rparr>],
            total_compound_score + compound sentiment_scores))"

definition analyze_headlines_sentiment ::
  "(string \<Rightarrow> sentiment_scores) \<Rightarrow> string list \<Rightarrow> summary result"
where
  "analyze_headlines_sentiment polarity_scores headlines =
     (if headlines = []
      then Inr \<lparr>average_sentiment_compound = 0, details = []\<rparr>
      else
        (case analyze_loop polarity_scores headlines ([], 0) of
           (detailed_results, total_compound_score) \<Rightarrow>
             and_then (truediv total_compound_score (length headlines))
               (\<lambda>average_compound.
                  Inr \<lparr>average_sentiment_compound = average_compound,
                       details = detailed_results\<rparr>)))"

section \<open>connectors.py\<close>

subsection \<open>get_btc_price\<close>

text \<open>
  The decoded answer of Kraken's \<open>Ticker\<close> endpoint: \<open>error_field\<close> is
  \<open>response.get('error')\<close> (\<open>None\<close> when the key is absent) and \<open>result_field\<close> is the
  value under \<open>'result'\<close>, a dict from pair names to dicts from field names to lists of
  texts. \<open>query_public\<close> (the krakenex call, which may raise) and \<open>py_float\<close> (Python's
  \<open>float\<close> on a text, \<open>None\<close> where it raises \<open>ValueError\<close>) are parameters.
\<close>

record kraken_response =
  error_field :: "string list option"
  result_field :: "(string \<times> (string \<times> string list) list) list option"

definition truthy_list :: "'a list option \<Rightarrow> bool" where
  "truthy_list v = (case v of None \<Rightarrow> False | Some xs \<Rightarrow> xs \<noteq> [])"

definition float_of_text :: "(string \<Rightarrow> real option) \<Rightarrow> string \<Rightarrow> real result" where
  "float_of_text py_float t =
     (case py_float t of
        None \<Rightarrow> Inl (Exception ''ValueError'' (''could not convert string to float: '' @ py_repr t))
      | Some x \<Rightarrow> Inr x)"

text \<open>\<open>response['result']['XXBTZUSD']['c'][0]\<close>, the argument of \<open>float\<close> on line 48.\<close>

definition closing_price_text :: "kraken_response \<Rightarrow> string result" where
  "closing_price_text response =
     and_then (case result_field response of
                 None \<Rightarrow> Inl (KeyError ''result'') | Some r \<Rightarrow> Inr r) (\<lambda>result.
     and_then (getitem result ''XXBTZUSD'') (\<lambda>ticker.
     and_then (getitem ticker ''c'') first_item))"

definition get_btc_price_try ::
  "(string \<Rightarrow> real option)
   \<Rightarrow> (string \<Rightarrow> (string \<times> string) list \<Rightarrow> kraken_response result) \<Rightarrow> real result"
where
  "get_btc_price_try py_float query_public =
     and_then (query_public ''Ticker'' [(''pair'', ''XXBTZUSD'')]) (\<lambda>response.
       if truthy_list (error_field response) then Inr 0
       else and_then (closing_price_text response) (float_of_text py_float))"

definition get_btc_price ::
  "(string \<Rightarrow> real option)
   \<Rightarrow> (string \<Rightarrow> (string \<times> string) list \<Rightarrow> kraken_response result) \<Rightarrow> real result"
where
  "get_btc_price py_float query_public =
     (case get_btc_price_try py_float query_public of
        Inl e \<Rightarrow> Inr 0
      | Inr last_trade_price \<Rightarrow> Inr last_trade_price)"

subsection \<open>get_spy_name\<close>

text \<open>
  The TWS gateway decides what the two calls on the \<open>IB\<close> object do: whether
  \<open>connect\<close> raises, whether the object is connected after it (a call may raise and
  still leave a connection open), what \<open>reqContractDetails\<close> returns or raises, and
  whether the object is connected after that. The \<open>IB\<close> object is the state
  \<open>ib\<close>: its connection flag and the calls made on it. \<open>disconnect\<close> closes the
  connection and does not raise.
\<close>

record contract_details =
  longName :: string

record ib_gateway =
  connect_raises :: "exn option"
  connected_after_connect :: bool
  reqContractDetails_result :: "contract_details list result"
  connected_after_request :: bool

datatype ib_call =
    Connect string int int
  | ReqContractDetails string string string
  | Disconnect

record ib =
  isConnected :: bool
  calls :: "ib_call list"

definition get_spy_name_try ::
  "ib_gateway \<Rightarrow> string \<Rightarrow> int \<Rightarrow> int \<Rightarrow> ib \<Rightarrow> string result \<times> ib"
where
  "get_spy_name_try gw host port client_id ib0 =
     (let ib1 = \<lparr>isConnected = connected_after_connect gw,
                 calls = calls ib0 @ [Connect host port client_id]\<rparr>
      in case connect_raises gw of
           Some e \<Rightarrow> (Inl e, ib1)
         | None \<Rightarrow>
             (let ib2 = \<lparr>isConnected = connected_after_request gw,
                         calls = calls ib1 @ [ReqContractDetails ''SPY'' ''SMART'' ''USD'']\<rparr>
              in case reqContractDetails_result gw of
                   Inl e \<Rightarrow> (Inl e, ib2)
                 | Inr details_list \<Rightarrow>
                     (case details_list of
                        [] \<Rightarrow> (Inr ''Desconocido'', ib2)
                      | d # _ \<Rightarrow> (Inr (longName d), ib2))))"

definition get_spy_name ::
  "ib_gateway \<Rightarrow> string \<Rightarrow> int \<Rightarrow> int \<Rightarrow> string result \<times> ib"
where
  "get_spy_name gw host port client_id =
     (case get_spy_name_try gw host port client_id \<lparr>isConnected = False, calls = []\<rparr> of
        (outcome, ib1) \<Rightarrow>
          (let returned =
                 (case outcome of
                    Inl (ConnectionRefusedError m) \<Rightarrow> Inr ''Desconocido''
                  | Inl e \<Rightarrow> Inr ''Desconocido''
                  | Inr long_name \<Rightarrow> Inr long_name);
               ib2 = (if isConnected ib1
                      then \<lparr>isConnected = False, calls = calls ib1 @ [Disconnect]\<rparr>
                      else ib1)
           in (returned, ib2)))"

subsection \<open>get_market_news\<close>

text \<open>
  \<open>requests_get\<close> is \<open>requests.get\<close> on a URL and its parameters. A response has the
  outcome of \<open>raise_for_status\<close> and of \<open>json\<close>; the decoded document is a dict, given by
  the list under its key \<open>'articles'\<close> when it has one, or something that is not a dict.
  An article is a dict of texts.
\<close>

type_synonym article = "(string \<times> string) list"

datatype json_doc = JsonObject "article list option" | JsonOther

record http_response =
  raise_for_status :: "exn option"
  json :: "json_doc result"

fun titles :: "article list \<Rightarrow> string list result" where
  "titles [] = Inr []"
| "titles (article # rest) =
     (case getitem article ''title'' of
        Inl e \<Rightarrow> Inl e
      | Inr title \<Rightarrow>
          (case titles rest of Inl e \<Rightarrow> Inl e | Inr ts \<Rightarrow> Inr (title # ts)))"

definition base_url :: string where
  "base_url = ''https://newsapi.org/v2/everything''"

definition params :: "string \<Rightarrow> string \<Rightarrow> (string \<times> string) list" where
  "params api_key query =
     [(''q'', query), (''language'', ''en''), (''sortBy'', ''publishedAt''), (''apiKey'', api_key)]"

definition get_market_news_try ::
  "(string \<Rightarrow> (string \<times> string) list \<Rightarrow> http_response result)
   \<Rightarrow> string \<Rightarrow> string \<Rightarrow> string list result"
where
  "get_market_news_try requests_get api_key query =
     and_then (requests_get base_url (params api_key query)) (\<lambda>response.
       case raise_for_status response of
         Some e \<Rightarrow> Inl e
       | None \<Rightarrow>
           and_then (json response) (\<lambda>data.
             case data of
               JsonOther \<Rightarrow> Inl (Exception ''AttributeError'' ''object has no attribute get'')
             | JsonObject articles \<Rightarrow>
                 titles (case articles of None \<Rightarrow> [] | Some found \<Rightarrow> found)))"

definition get_market_news ::
  "(string \<Rightarrow> (string \<times> string) list \<Rightarrow> http_response result)
   \<Rightarrow> string \<Rightarrow> string \<Rightarrow> string list result"
where
  "get_market_news requests_get api_key query =
     (case get_market_news_try requests_get api_key query of
        Inl (RequestException m) \<Rightarrow> Inr []
      | Inl (KeyError k) \<Rightarrow> Inr []
      | Inl e \<Rightarrow> Inr []
      | Inr headlines \<Rightarrow> Inr headlines)"

section \<open>main.py: the labeler\<close>

definition get_sentiment_label :: "real \<Rightarrow> string" where
  "get_sentiment_label score =
     (if score > 0.3 then ''POSITIVO''
      else if score > 0.05 then ''NEUTRAL-POSITIVO''
      else if score < - 0.3 then ''NEGATIVO''
      else if score < - 0.05 then ''NEUTRAL-NEGATIVO''
      else ''NEUTRAL'')"

text \<open>
  The five categories of the specification, in its order, and the text the program
  prints for each of them (the program's texts are Spanish).
\<close>

datatype label = NEGATIVE | NEUTRAL_NEGATIVE | NEUTRAL | NEUTRAL_POSITIVE | POSITIVE

fun label_text :: "label \<Rightarrow> string" where
  "label_text NEGATIVE = ''NEGATIVO''"
| "label_text NEUTRAL_NEGATIVE = ''NEUTRAL-NEGATIVO''"
| "label_text NEUTRAL = ''NEUTRAL''"
| "label_text NEUTRAL_POSITIVE = ''NEUTRAL-POSITIVO''"
| "label_text POSITIVE = ''POSITIVO''"

fun label_rank :: "label \<Rightarrow> nat" where
  "label_rank NEGATIVE = 0"
| "label_rank NEUTRAL_NEGATIVE = 1"
| "label_rank NEUTRAL = 2"
| "label_rank NEUTRAL_POSITIVE = 3"
| "label_rank POSITIVE = 4"

definition label_of_text :: "string \<Rightarrow> label option" where
  "label_of_text t =
     (if t = ''NEGATIVO'' then Some NEGATIVE
      else if t = ''NEUTRAL-NEGATIVO'' then Some NEUTRAL_NEGATIVE
      else if t = ''NEUTRAL'' then Some NEUTRAL
      else if t = ''NEUTRAL-POSITIVO'' then Some NEUTRAL_POSITIVE
      else if t = ''POSITIVO'' then Some POSITIVE
      else None)"

definition label_le :: "string \<Rightarrow> string \<Rightarrow> bool" where
  "label_le a b =
     (case (label_of_text a, label_of_text b) of
        (Some x, Some y) \<Rightarrow> label_rank x \<le> label_rank y
      | _ \<Rightarrow> False)"

section \<open>main.py: configuration, report and orchestration\<close>

subsection \<open>load_config and the configparser reads\<close>

text \<open>
  A parsed configuration file: its sections, each a dict of options, and the options of
  its \<open>DEFAULT\<close> section. The parser stores option names in lower case and
  \<open>ConfigParser.get\<close> lowers the name it is asked for (\<open>optionxform\<close>); a stored value is
  the text \<open>get\<close> returns. \<open>config_read\<close> is \<open>ConfigParser.read\<close> on a file name:
  \<open>None\<close> when it could read no file, and it may raise on a file it cannot parse.
  \<open>py_int\<close> is Python's \<open>int\<close> on a text, \<open>None\<close> where it raises \<open>ValueError\<close>.
\<close>

record config =
  sections :: "(string \<times> (string \<times> string) list) list"
  defaults :: "(string \<times> string) list"

definition lower_char :: "char \<Rightarrow> char" where
  "lower_char c =
     (case map_of (zip ''ABCDEFGHIJKLMNOPQRSTUVWXYZ'' ''abcdefghijklmnopqrstuvwxyz'') c of
        None \<Rightarrow> c
      | Some l \<Rightarrow> l)"

definition optionxform :: "string \<Rightarrow> string" where
  "optionxform optionstr = map lower_char optionstr"

text \<open>
  \<open>_unify_values\<close>: the options of a section, chained before the defaults (the first
  binding of a key is the one \<open>map_of\<close> finds).
\<close>

definition unify_values :: "config \<Rightarrow> string \<Rightarrow> (string \<times> string) list result" where
  "unify_values cfg section =
     (case map_of (sections cfg) section of
        None \<Rightarrow> Inl (NoSectionError section)
      | Some sectiondict \<Rightarrow> Inr (sectiondict @ defaults cfg))"

definition config_get :: "config \<Rightarrow> string \<Rightarrow> string \<Rightarrow> string result" where
  "config_get cfg section option =
     and_then (unify_values cfg section) (\<lambda>d.
       case map_of d (optionxform option) of
         None \<Rightarrow> Inl (NoOptionError (optionxform option) section)
       | Some v \<Rightarrow> Inr v)"

definition int_of_text :: "(string \<Rightarrow> int option) \<Rightarrow> string \<Rightarrow> int result" where
  "int_of_text py_int t =
     (case py_int t of
        None \<Rightarrow>
          Inl (Exception ''ValueError'' (''invalid literal for int() with base 10: '' @ py_repr t))
      | Some n \<Rightarrow> Inr n)"

definition config_getint ::
  "(string \<Rightarrow> int option) \<Rightarrow> config \<Rightarrow> string \<Rightarrow> string \<Rightarrow> int result"
where
  "config_getint py_int cfg section option =
     and_then (config_get cfg section option) (int_of_text py_int)"

definition load_config :: "(string \<Rightarrow> config option result) \<Rightarrow> string \<Rightarrow> config result" where
  "load_config config_read filename =
     and_then (config_read filename) (\<lambda>files_read.
       case files_read of
         None \<Rightarrow>
           Inl (FileNotFoundError
                  (''Error: El archivo de configuraci'' @ [CHR 0xF3] @ ''n '' @ [CHR 0x27]
                   @ filename @ [CHR 0x27] @ '' no fue encontrado.''))
       | Some cfg \<Rightarrow> Inr cfg)"

subsection \<open>display_report\<close>

text \<open>
  The report is the list of the texts printed, one per \<open>print\<close> call. The clock's
  reading, already formatted by \<open>strftime\<close>, and Python's two number formats
  (\<open>:.3f\<close> and \<open>:,.2f\<close>) are parameters.
\<close>

definition ljust :: "nat \<Rightarrow> string \<Rightarrow> string" where
  "ljust width s = s @ replicate (width - length s) CHR '' ''"

definition display_report ::
  "string \<Rightarrow> (real \<Rightarrow> string) \<Rightarrow> (real \<Rightarrow> string) \<Rightarrow> string \<Rightarrow> real \<Rightarrow> real \<Rightarrow> string list"
where
  "display_report timestamp_utc format_3f format_comma_2f spy_name sentiment_score btc_price =
     (let sentiment_label = get_sentiment_label sentiment_score;
          separator = replicate 63 CHR ''=''
      in [separator,
          ''    PROJECT SENTINEL - CRYPTO & TRADFI SENTIMENT BRIDGE'',
          ''            Fecha y Hora: '' @ timestamp_utc,
          separator,
          [],
          ''[1] AN'' @ [CHR 0xC1] @ ''LISIS DEL MERCADO TRADICIONAL (S&P 500)'',
          replicate 63 CHR ''-'',
          ljust 30 ''-> Activo de Referencia'' @ '': '' @ spy_name
            @ '' (v'' @ [CHR 0xED] @ ''a IBKR)'',
          ljust 30 ''-> Sentimiento de Noticias'' @ '': '' @ sentiment_label
            @ '' (v'' @ [CHR 0xED] @ ''a NewsAPI & AI)'',
          ljust 30 (''-> Puntuaci'' @ [CHR 0xF3] @ ''n de Sentimiento'') @ '': ''
            @ format_3f sentiment_score,
          [],
          ''[2] DATOS DEL MERCADO CRYPTO'',
          replicate 63 CHR ''-'',
          ljust 30 ''-> Activo'' @ '': Bitcoin (XBT/USD) (v'' @ [CHR 0xED] @ ''a Kraken)'',
          ljust 30 ''-> Precio Actual'' @ '': $'' @ format_comma_2f btc_price,
          [],
          ''[3] CONCLUSI'' @ [CHR 0xD3] @ ''N'',
          replicate 63 CHR ''-'',
          ''El sentimiento del mercado tradicional es '' @ sentiment_label @ ''.'',
          ''Monitorear si este sentimiento se traslada a los activos de riesgo como Bitcoin.'',
          [],
          separator,
          ''                     FIN DEL INFORME'',
          separator])"

subsection \<open>main\<close>

text \<open>
  Everything outside the program that a run meets. A run is what \<open>main.py\<close> prints
  (\<open>stdout\<close>, one text per \<open>print\<close> call of \<open>main\<close> and \<open>display_report\<close>) and the fetch
  operations it performs, in order. The diagnostic lines that \<open>connectors.py\<close> and
  \<open>analysis.py\<close> print in between are not part of \<open>stdout\<close>.
\<close>

record world =
  config_read :: "string \<Rightarrow> config option result"
  py_int :: "string \<Rightarrow> int option"
  py_float :: "string \<Rightarrow> real option"
  gateway :: ib_gateway
  requests_get :: "string \<Rightarrow> (string \<times> string) list \<Rightarrow> http_response result"
  query_public :: "string \<Rightarrow> (string \<times> string) list \<Rightarrow> kraken_response result"
  polarity_scores :: "string \<Rightarrow> sentiment_scores"
  now_utc :: string
  format_3f :: "real \<Rightarrow> string"
  format_comma_2f :: "real \<Rightarrow> string"

datatype fetch =
    FetchSpyName string int int
  | FetchMarketNews string string
  | FetchBtcPrice

record run =
  stdout :: "string list"
  fetches :: "fetch list"

text \<open>The four reads of the configuration, lines 117 to 123 of \<open>main\<close>.\<close>

definition main_config :: "world \<Rightarrow> (string \<times> int \<times> int \<times> string) result" where
  "main_config w =
     and_then (load_config (config_read w) ''config.ini'') (\<lambda>cfg.
     and_then (config_get cfg ''IBKR'' ''HOST'') (\<lambda>ib_host.
     and_then (config_getint (py_int w) cfg ''IBKR'' ''PORT'') (\<lambda>ib_port.
     and_then (config_getint (py_int w) cfg ''IBKR'' ''CLIENT_ID'') (\<lambda>ib_client_id.
     and_then (config_get cfg ''NEWS_API'' ''API_KEY'') (\<lambda>news_api_key.
       Inr (ib_host, ib_port, ib_client_id, news_api_key))))))"

text \<open>The rest of the \<open>try\<close> block, lines 125 to 141: the exception raised, if any, and the run.\<close>

definition main_fetch ::
  "world \<Rightarrow> string \<times> int \<times> int \<times> string \<Rightarrow> run \<Rightarrow> exn option \<times> run"
where
  "main_fetch w settings r0 =
     (case settings of (ib_host, ib_port, ib_client_id, news_api_key) \<Rightarrow>
       (let r1 = \<lparr>stdout = stdout r0
                     @ [''Configuraci'' @ [CHR 0xF3] @ ''n cargada. Obteniendo datos...''],
                   fetches = fetches r0 @ [FetchSpyName ib_host ib_port ib_client_id]\<rparr>
        in case fst (get_spy_name (gateway w) ib_host ib_port ib_client_id) of
             Inl e \<Rightarrow> (Some e, r1)
           | Inr spy_name \<Rightarrow>
               (let r2 = \<lparr>stdout = stdout r1 @ [''Nombre del ETF SPY obtenido: '' @ spy_name],
                           fetches = fetches r1 @ [FetchMarketNews news_api_key spy_name]\<rparr>
                in case get_market_news (requests_get w) news_api_key spy_name of
                     Inl e \<Rightarrow> (Some e, r2)
                   | Inr headlines \<Rightarrow>
                       (case analyze_headlines_sentiment (polarity_scores w) headlines of
                          Inl e \<Rightarrow> (Some e, r2)
                        | Inr sentiment_analysis \<Rightarrow>
                            (let avg_sentiment_score =
                                   average_sentiment_compound sentiment_analysis;
                                 r3 = r2\<lparr>fetches := fetches r2 @ [FetchBtcPrice]\<rparr>
                             in case get_btc_price (py_float w) (query_public w) of
                                  Inl e \<Rightarrow> (Some e, r3)
                                | Inr btc_price \<Rightarrow>
                                    (None,
                                     r3\<lparr>stdout := stdout r3
                                          @ [''Datos recopilados. Generando informe...'']
                                          @ display_report (now_utc w) (format_3f w)
                                              (format_comma_2f w) spy_name
                                              avg_sentiment_score btc_price\<rparr>))))))"

definition main_try :: "world \<Rightarrow> run \<Rightarrow> exn option \<times> run" where
  "main_try w r0 =
     (case main_config w of
        Inl e \<Rightarrow> (Some e, r0)
      | Inr settings \<Rightarrow> main_fetch w settings r0)"

text \<open>\<open>type(e).__name__\<close> and \<open>str(e)\<close>, for the last handler.\<close>

fun exn_type_name :: "exn \<Rightarrow> string" where
  "exn_type_name (FileNotFoundError m) = ''FileNotFoundError''"
| "exn_type_name (NoSectionError s) = ''NoSectionError''"
| "exn_type_name (NoOptionError opt s) = ''NoOptionError''"
| "exn_type_name (ConnectionRefusedError m) = ''ConnectionRefusedError''"
| "exn_type_name (RequestException m) = ''RequestException''"
| "exn_type_name (KeyError k) = ''KeyError''"
| "exn_type_name (Exception cls m) = cls"

fun exn_str :: "exn \<Rightarrow> string" where
  "exn_str (FileNotFoundError m) = m"
| "exn_str (NoSectionError s) = ''No section: '' @ py_repr s"
| "exn_str (NoOptionError opt s) = ''No option '' @ py_repr opt @ '' in section: '' @ py_repr s"
| "exn_str (ConnectionRefusedError m) = m"
| "exn_str (RequestException m) = m"
| "exn_str (KeyError k) = py_repr k"
| "exn_str (Exception cls m) = m"

text \<open>The four \<open>except\<close> clauses of \<open>main\<close>, in their order: what each prints.\<close>

definition main_except :: "exn \<Rightarrow> string list" where
  "main_except e =
     (case e of
        FileNotFoundError m \<Rightarrow>
          [[CHR 0x0A] @ ''ERROR CR'' @ [CHR 0xCD] @ ''TICO: '' @ exn_str e,
           ''Por favor, aseg'' @ [CHR 0xFA]
             @ ''rate de que 'config.ini' existe en el mismo directorio.'',
           ''Puedes crearlo a partir de 'config.ini.example'.'']
      | NoSectionError section \<Rightarrow>
          [[CHR 0x0A] @ ''ERROR DE CONFIGURACI'' @ [CHR 0xD3] @ ''N: Falta la secci''
             @ [CHR 0xF3] @ ''n '' @ section @ '' en 'config.ini'.'']
      | NoOptionError option section \<Rightarrow>
          [[CHR 0x0A] @ ''ERROR DE CONFIGURACI'' @ [CHR 0xD3] @ ''N: Falta la opci''
             @ [CHR 0xF3] @ ''n '' @ [CHR 0x27] @ option @ [CHR 0x27] @ '' en la secci''
             @ [CHR 0xF3] @ ''n '' @ [CHR 0x27] @ section @ [CHR 0x27]
             @ '' de 'config.ini'.'']
      | _ \<Rightarrow>
          [[CHR 0x0A] @ ''HA OCURRIDO UN ERROR INESPERADO:'',
           ''Tipo de Error: '' @ exn_type_name e,
           ''Mensaje: '' @ exn_str e,
           ''La ejecuci'' @ [CHR 0xF3] @ ''n del programa se ha detenido.''])"

definition main :: "world \<Rightarrow> run" where
  "main w =
     (case main_try w \<lparr>stdout = [''Iniciando Project Sentinel...''], fetches = []\<rparr> of
        (None, r) \<Rightarrow> r
      | (Some e, r) \<Rightarrow> r\<lparr>stdout := stdout r @ main_except e\<rparr>)"

section \<open>Conditions named by the specification\<close>

text \<open>
  The value \<open>ConfigParser.get\<close> finds for an option of a section, if any; the run of a
  \<open>main\<close> that stops on an exception before it has fetched anything; and a failed
  fetch of the reference asset: \<open>connect\<close> raises, or \<open>reqContractDetails\<close> raises or
  returns no contract details.
\<close>

definition option_value :: "config \<Rightarrow> string \<Rightarrow> string \<Rightarrow> string option" where
  "option_value cfg section option =
     (case map_of (sections cfg) section of
        None \<Rightarrow> None
      | Some sectiondict \<Rightarrow> map_of (sectiondict @ defaults cfg) option)"



section \<open>Concrete collaborators\<close>

text \<open>
  Collaborators with a fixed behaviour, on which the theorems below are run: a Kraken
  endpoint that answers, one that is unreachable, one that reports an error and one
  whose answer lacks the closing price; a gateway that answers, one that refuses the
  connection, one whose handshake times out with the socket open and one that knows no
  contract; a news service that answers, one that rejects the key and one whose
  articles lack a title.
\<close>

definition stub_float :: "string \<Rightarrow> real option" where
  "stub_float t = (if t = ''43210.10000'' then Some 43210.1 else None)"

definition stub_int :: "string \<Rightarrow> int option" where
  "stub_int t = (if t = ''7497'' then Some 7497 else if t = ''1'' then Some 1 else None)"

definition kraken_ok :: "string \<Rightarrow> (string \<times> string) list \<Rightarrow> kraken_response result" where
  "kraken_ok method data =
     Inr \<lparr>error_field = Some [],
          result_field =
            Some [(''XXBTZUSD'',
                   [(''a'', [''43210.20000'', ''1'', ''1.000'']),
                    (''c'', [''43210.10000'', ''0.00100000''])])]\<rparr>"





definition gateway_ok :: ib_gateway where
  "gateway_ok =
     \<lparr>connect_raises = None, connected_after_connect = True,
      reqContractDetails_result = Inr [\<lparr>longName = ''SPDR S&P 500 ETF TRUST''\<rparr>],
      connected_after_request = True\<rparr>"


definition gateway_timeout :: ib_gateway where
  "gateway_timeout =
     \<lparr>connect_raises = Some (Exception ''TimeoutError'' []),
      connected_after_connect = True,
      reqContractDetails_result = Inr [], connected_after_request = False\<rparr>"


definition news_ok :: "string \<Rightarrow> (string \<times> string) list \<Rightarrow> http_response result" where
  "news_ok url ps =
     Inr \<lparr>raise_for_status = None,
          json = Inr (JsonObject (Some
            [[(''source'', ''wire''), (''title'', ''Markets rally on strong earnings'')],
             [(''title'', ''Recession fears grow'')]]))\<rparr>"

definition news_unauthorized :: "string \<Rightarrow> (string \<times> string) list \<Rightarrow> http_response result" where
  "news_unauthorized url ps =
     Inr \<lparr>raise_for_status = Some (RequestException ''401 Client Error: Unauthorized''),
          json = Inr JsonOther\<rparr>"

definition news_down :: "string \<Rightarrow> (string \<times> string) list \<Rightarrow> http_response result" where
  "news_down url ps = Inl (RequestException ''Connection aborted'')"

definition news_untitled :: "string \<Rightarrow> (string \<times> string) list \<Rightarrow> http_response result" where
  "news_untitled url ps =
     Inr \<lparr>raise_for_status = None,
          json = Inr (JsonObject (Some
            [[(''title'', ''Markets rally on strong earnings'')], [(''source'', ''wire'')]]))\<rparr>"

definition news_not_json :: "string \<Rightarrow> (string \<times> string) list \<Rightarrow> http_response result" where
  "news_not_json url ps =
     Inr \<lparr>raise_for_status = None,
          json = Inl (Exception ''JSONDecodeError'' ''Expecting value'')\<rparr>"

definition news_array :: "string \<Rightarrow> (string \<times> string) list \<Rightarrow> http_response result" where
  "news_array url ps = Inr \<lparr>raise_for_status = None, json = Inr JsonOther\<rparr>"

text \<open>A stand-in for the polarity model, used where a theorem is run on an input.\<close>

definition stub_polarity_scores :: "string \<Rightarrow> sentiment_scores" where
  "stub_polarity_scores h =
     (if h = ''Markets rally on strong earnings''
      then \<lparr>neg = 0, neu = 0.5, pos = 0.5, compound = 0.5\<rparr>
      else \<lparr>neg = 0.6, neu = 0.4, pos = 0, compound = - 0.25\<rparr>)"

definition stub_3f :: "real \<Rightarrow> string" where
  "stub_3f x = (if x = 0 then ''0.000'' else ''0.125'')"

definition stub_comma_2f :: "real \<Rightarrow> string" where
  "stub_comma_2f x = (if x = 0 then ''0.00'' else ''43,210.10'')"

text \<open>
  Configuration files: a complete one, one without the section \<open>IBKR\<close>, one whose
  section \<open>IBKR\<close> has no \<open>PORT\<close>, one without the section \<open>NEWS_API\<close>; and no file.
\<close>

definition config_complete :: config where
  "config_complete =
     \<lparr>sections =
        [(''IBKR'', [(''host'', ''127.0.0.1''), (''port'', ''7497''), (''client_id'', ''1'')]),
         (''NEWS_API'', [(''api_key'', ''k'')])],
      defaults = []\<rparr>"




definition world_with :: "config option \<Rightarrow> ib_gateway \<Rightarrow> world" where
  "world_with file gw =
     \<lparr>config_read = (\<lambda>filename. Inr file), py_int = stub_int, py_float = stub_float,
      gateway = gw, requests_get = news_ok, query_public = kraken_ok,
      polarity_scores = stub_polarity_scores, now_utc = ''2024-01-01 00:00:00 UTC'',
      format_3f = stub_3f, format_comma_2f = stub_comma_2f\<rparr>"

section \<open>The aggregator\<close>


lemma label_of_text_label_text: "label_of_text (label_text l) = Some l"
  by (cases l) (simp_all add: label_of_text_def)

lemma get_sentiment_label_cases:
  "get_sentiment_label s =
     label_text (if s > 0.3 then POSITIVE
                 else if s > 0.05 then NEUTRAL_POSITIVE
                 else if s < - 0.3 then NEGATIVE
                 else if s < - 0.05 then NEUTRAL_NEGATIVE
                 else NEUTRAL)"
  by (simp add: get_sentiment_label_def)



text \<open>
  C3. On the empty list the aggregator returns a summary, not an error: the average is
  0.0 and the details are empty. The division is not reached.
\<close>

theorem analyze_headlines_sentiment_empty:
  "analyze_headlines_sentiment ps []
     = Inr \<lparr>average_sentiment_compound = 0, details = []\<rparr>"
  by (simp add: analyze_headlines_sentiment_def)

section \<open>The labeler\<close>

text \<open>
  C2. The labeler is defined on every real score and follows the five-row table:
  above 0.3 POSITIVE; above 0.05 and up to 0.3 NEUTRAL-POSITIVE; below -0.3 NEGATIVE;
  from -0.3 and below -0.05 NEUTRAL-NEGATIVE; from -0.05 to 0.05 NEUTRAL. At the
  boundaries, 0.3 is NEUTRAL-POSITIVE, -0.3 is NEUTRAL-NEGATIVE, 0.05 and -0.05 are
  NEUTRAL. The program writes the five labels in Spanish (\<open>label_text\<close>).
\<close>

theorem get_sentiment_label_table:
  "(get_sentiment_label s = label_text POSITIVE) = (s > 0.3)
   \<and> (get_sentiment_label s = label_text NEUTRAL_POSITIVE) = (0.05 < s \<and> s \<le> 0.3)
   \<and> (get_sentiment_label s = label_text NEGATIVE) = (s < - 0.3)
   \<and> (get_sentiment_label s = label_text NEUTRAL_NEGATIVE) = (- 0.3 \<le> s \<and> s < - 0.05)
   \<and> (get_sentiment_label s = label_text NEUTRAL) = (- 0.05 \<le> s \<and> s \<le> 0.05)
   \<and> (\<exists>l. get_sentiment_label s = label_text l)
   \<and> get_sentiment_label 0.3 = label_text NEUTRAL_POSITIVE
   \<and> get_sentiment_label (- 0.3) = label_text NEUTRAL_NEGATIVE
   \<and> get_sentiment_label 0.05 = label_text NEUTRAL
   \<and> get_sentiment_label (- 0.05) = label_text NEUTRAL"
proof -
  have ex: "\<exists>l. get_sentiment_label s = label_text l"
    unfolding get_sentiment_label_cases by blast
  show ?thesis
    using ex by (simp add: get_sentiment_label_def)
qed

text \<open>
  C10. The labeler is monotone: a score that is not larger gets a label that is not
  higher, in the order NEGATIVE, NEUTRAL-NEGATIVE, NEUTRAL, NEUTRAL-POSITIVE, POSITIVE.
\<close>

theorem get_sentiment_label_mono:
  assumes "s1 \<le> s2"
  shows "label_le (get_sentiment_label s1) (get_sentiment_label s2)"
  using assms
  unfolding label_le_def get_sentiment_label_cases label_of_text_label_text
  by simp

theorem get_sentiment_label_mono_witness:
  "(- 0.4 :: real) \<le> 0.2
   \<and> label_le (get_sentiment_label (- 0.4)) (get_sentiment_label 0.2)
   \<and> get_sentiment_label (- 0.4) = ''NEGATIVO''
   \<and> get_sentiment_label 0.2 = ''NEUTRAL-POSITIVO''"
  using get_sentiment_label_mono [of "- 0.4" "0.2"]
  by (simp add: get_sentiment_label_def)

section \<open>The connectors\<close>

lemma titles_eq:
  "titles arts =
     (if \<forall>a \<in> set arts. map_of a ''title'' \<noteq> None
      then Inr (map (\<lambda>a. the (map_of a ''title'')) arts)
      else Inl (KeyError ''title''))"
  by (induction arts) (auto simp add: getitem_def split: sum.splits option.splits)



text \<open>
  C6. The news fetch never hands an exception to its caller: it returns a list. When
  the request raises or the status is an error (HTTP level), when the body does not
  decode, is not a dict or an article has no title (parsing, unexpected), the list is
  empty; otherwise it is the titles of the articles, in order.
\<close>

theorem get_market_news_fallback:
  "(\<exists>headlines. get_market_news rg api_key query = Inr headlines)
   \<and> (\<forall>e. rg base_url (params api_key query) = Inl e
         \<longrightarrow> get_market_news rg api_key query = Inr [])
   \<and> (\<forall>r e. rg base_url (params api_key query) = Inr r \<and> raise_for_status r = Some e
         \<longrightarrow> get_market_news rg api_key query = Inr [])
   \<and> (\<forall>r e. rg base_url (params api_key query) = Inr r \<and> raise_for_status r = None
           \<and> json r = Inl e
         \<longrightarrow> get_market_news rg api_key query = Inr [])
   \<and> (\<forall>r. rg base_url (params api_key query) = Inr r \<and> raise_for_status r = None
           \<and> json r = Inr JsonOther
         \<longrightarrow> get_market_news rg api_key query = Inr [])
   \<and> (\<forall>r arts. rg base_url (params api_key query) = Inr r \<and> raise_for_status r = None
           \<and> json r = Inr (JsonObject (Some arts))
           \<and> (\<exists>a \<in> set arts. map_of a ''title'' = None)
         \<longrightarrow> get_market_news rg api_key query = Inr [])
   \<and> (\<forall>r. rg base_url (params api_key query) = Inr r \<and> raise_for_status r = None
           \<and> json r = Inr (JsonObject None)
         \<longrightarrow> get_market_news rg api_key query = Inr [])
   \<and> (\<forall>r arts ts. rg base_url (params api_key query) = Inr r \<and> raise_for_status r = None
           \<and> json r = Inr (JsonObject (Some arts))
           \<and> map (\<lambda>a. map_of a ''title'') arts = map Some ts
         \<longrightarrow> get_market_news rg api_key query = Inr ts)"
proof -
  have ok: "titles arts = Inr ts" if "map (\<lambda>a. map_of a ''title'') arts = map Some ts"
    for arts ts
    using that
    by (induction arts arbitrary: ts) (auto simp add: getitem_def split: sum.splits)
  have bad: "titles arts = Inl (KeyError ''title'')"
    if "\<exists>a \<in> set arts. map_of a ''title'' = None" for arts
    using that by (simp add: titles_eq)
  show ?thesis
    by (auto simp add: get_market_news_def get_market_news_try_def and_then_def ok bad
          split: sum.splits option.splits exn.splits json_doc.splits)
qed

theorem get_market_news_fallback_witness:
  "get_market_news news_ok ''key'' ''SPDR''
     = Inr [''Markets rally on strong earnings'', ''Recession fears grow'']
   \<and> get_market_news news_down ''key'' ''SPDR'' = Inr []
   \<and> get_market_news news_unauthorized ''key'' ''SPDR'' = Inr []
   \<and> get_market_news news_not_json ''key'' ''SPDR'' = Inr []
   \<and> get_market_news news_array ''key'' ''SPDR'' = Inr []
   \<and> get_market_news news_untitled ''key'' ''SPDR'' = Inr []"
  using get_market_news_fallback [of news_ok "''key''" "''SPDR''"]
        get_market_news_fallback [of news_down "''key''" "''SPDR''"]
        get_market_news_fallback [of news_unauthorized "''key''" "''SPDR''"]
        get_market_news_fallback [of news_not_json "''key''" "''SPDR''"]
        get_market_news_fallback [of news_array "''key''" "''SPDR''"]
        get_market_news_fallback [of news_untitled "''key''" "''SPDR''"]
  by (simp add: news_ok_def news_down_def news_unauthorized_def news_not_json_def
        news_array_def news_untitled_def)

text \<open>
  C7. Whatever the gateway does, \<open>get_spy_name\<close> returns with the \<open>IB\<close> object
  disconnected: when the \<open>try\<close> block ends with a connection open, on a return or on
  an exception, the last call made is \<open>disconnect\<close>. It always returns a name.
\<close>

theorem get_spy_name_releases:
  "\<not> isConnected (snd (get_spy_name gw host port client_id))
   \<and> (isConnected (snd (get_spy_name_try gw host port client_id
                          \<lparr>isConnected = False, calls = []\<rparr>))
        \<longrightarrow> last (calls (snd (get_spy_name gw host port client_id))) = Disconnect)
   \<and> (\<exists>name. fst (get_spy_name gw host port client_id) = Inr name)"
  by (auto simp add: get_spy_name_def get_spy_name_try_def Let_def
        split: option.splits sum.splits list.splits exn.splits prod.splits)

theorem get_spy_name_releases_witness:
  "isConnected (snd (get_spy_name_try gateway_timeout ''127.0.0.1'' 7497 1
                       \<lparr>isConnected = False, calls = []\<rparr>))
   \<and> get_spy_name gateway_timeout ''127.0.0.1'' 7497 1
       = (Inr ''Desconocido'',
          \<lparr>isConnected = False, calls = [Connect ''127.0.0.1'' 7497 1, Disconnect]\<rparr>)
   \<and> get_spy_name gateway_ok ''127.0.0.1'' 7497 1
       = (Inr ''SPDR S&P 500 ETF TRUST'',
          \<lparr>isConnected = False,
           calls = [Connect ''127.0.0.1'' 7497 1,
                    ReqContractDetails ''SPY'' ''SMART'' ''USD'', Disconnect]\<rparr>)"
  using get_spy_name_releases [of gateway_timeout "''127.0.0.1''" 7497 1]
        get_spy_name_releases [of gateway_ok "''127.0.0.1''" 7497 1]
  by (simp add: get_spy_name_def get_spy_name_try_def gateway_timeout_def gateway_ok_def)

section \<open>The orchestrator\<close>

lemma optionxform_names:
  "optionxform ''HOST'' = ''host''" "optionxform ''PORT'' = ''port''"
  "optionxform ''CLIENT_ID'' = ''client_id''" "optionxform ''API_KEY'' = ''api_key''"
  by (simp_all add: optionxform_def lower_char_def)

lemma config_get_eq:
  "config_get cfg s opt =
     (case map_of (sections cfg) s of
        None \<Rightarrow> Inl (NoSectionError s)
      | Some d \<Rightarrow>
          (case option_value cfg s (optionxform opt) of
             None \<Rightarrow> Inl (NoOptionError (optionxform opt) s)
           | Some v \<Rightarrow> Inr v))"
  by (simp add: config_get_def unify_values_def and_then_def option_value_def
        split: option.splits)


lemma get_spy_name_Inr: "\<exists>name. fst (get_spy_name gw h p c) = Inr name"
  by (auto simp add: get_spy_name_def get_spy_name_try_def Let_def
        split: option.splits sum.splits list.splits exn.splits prod.splits)





text \<open>A complete run and the lines of its report that carry the inputs.\<close>

lemma main_complete_example:
  "main (world_with (Some config_complete) gateway_ok)
     = \<lparr>stdout =
          [''Iniciando Project Sentinel...'',
           ''Configuraci'' @ [CHR 0xF3] @ ''n cargada. Obteniendo datos...'',
           ''Nombre del ETF SPY obtenido: SPDR S&P 500 ETF TRUST'',
           ''Datos recopilados. Generando informe...'']
          @ display_report ''2024-01-01 00:00:00 UTC'' stub_3f stub_comma_2f
              ''SPDR S&P 500 ETF TRUST'' 0.125 43210.1,
        fetches = [FetchSpyName ''127.0.0.1'' 7497 1,
                   FetchMarketNews ''k'' ''SPDR S&P 500 ETF TRUST'', FetchBtcPrice]\<rparr>"
  by (simp add: main_def main_try_def main_config_def main_fetch_def world_with_def
        load_config_def config_complete_def config_get_eq config_getint_def option_value_def
        optionxform_names and_then_def int_of_text_def stub_int_def
        get_spy_name_def get_spy_name_try_def gateway_ok_def
        get_market_news_def get_market_news_try_def news_ok_def getitem_def
        analyze_headlines_sentiment_def truediv_def stub_polarity_scores_def
        get_btc_price_def get_btc_price_try_def kraken_ok_def truthy_list_def
        closing_price_text_def first_item_def float_of_text_def stub_float_def Let_def)

lemma display_report_example:
  "display_report ''2024-01-01 00:00:00 UTC'' stub_3f stub_comma_2f
     ''SPDR S&P 500 ETF TRUST'' 0.125 43210.1 ! 7
     = ''-> Activo de Referencia       : SPDR S&P 500 ETF TRUST (v'' @ [CHR 0xED] @ ''a IBKR)''
   \<and> display_report ''2024-01-01 00:00:00 UTC'' stub_3f stub_comma_2f
     ''SPDR S&P 500 ETF TRUST'' 0.125 43210.1 ! 8
     = ''-> Sentimiento de Noticias    : NEUTRAL-POSITIVO (v'' @ [CHR 0xED] @ ''a NewsAPI & AI)''
   \<and> display_report ''2024-01-01 00:00:00 UTC'' stub_3f stub_comma_2f
     ''SPDR S&P 500 ETF TRUST'' 0.125 43210.1 ! 9
     = ''-> Puntuaci'' @ [CHR 0xF3] @ ''n de Sentimiento  : 0.125''
   \<and> display_report ''2024-01-01 00:00:00 UTC'' stub_3f stub_comma_2f
     ''SPDR S&P 500 ETF TRUST'' 0.125 43210.1 ! 14
     = ''-> Precio Actual              : $43,210.10''"
  by (simp add: display_report_def get_sentiment_label_def ljust_def stub_3f_def
        stub_comma_2f_def Let_def)
     (simp add: eval_nat_numeral)






text \<open>
  C9. The report is a function of the clock's reading, the two number formats and the
  three inputs. Two reports of the same inputs have the same 24 lines except the third,
  which is \<open>Fecha y Hora:\<close> followed by the clock's reading.
\<close>

theorem display_report_timestamp_only:
  "length (display_report t1 f3 f2 spy_name sentiment_score btc_price) = 24
   \<and> display_report t1 f3 f2 spy_name sentiment_score btc_price ! 2
       = ''            Fecha y Hora: '' @ t1
   \<and> take 2 (display_report t1 f3 f2 spy_name sentiment_score btc_price)
       = take 2 (display_report t2 f3 f2 spy_name sentiment_score btc_price)
   \<and> drop 3 (display_report t1 f3 f2 spy_name sentiment_score btc_price)
       = drop 3 (display_report t2 f3 f2 spy_name sentiment_score btc_price)"
  by (simp add: display_report_def Let_def)

end
